theory Spec2Isabelle
  imports Complex_Main
begin

section \<open>Brewing water calculator: data model\<close>

text \<open>
  The TypeScript sources compute with JavaScript numbers. They are modelled as
  \<^typ>\<open>real\<close>: arithmetic is exact, and the values NaN and Infinity do not
  occur, except in two places, where the type \<open>jsnum\<close> below adds them: the
  volume handed to the validator, whose finiteness test is modelled, and the
  profile handed to calculateBrewingAnalysis, whose guard on the chloride value
  is modelled for every JavaScript number. Promises are modelled as the values
  they resolve to, and module loading is taken to succeed.

  \<open>WaterProfile\<close> (types.ts) is an object with the six keys Ca, Mg, Na, SO4,
  Cl and HCO3. The code reads and writes it both by field (\<open>profile.Ca\<close>) and
  by key (\<open>profile[ion]\<close>), so it is modelled as a total map from the six keys.
  \<open>SaltAdditions\<close> is the object with the five keys given by \<open>salt_key\<close>.
\<close>

datatype ion = Ca | Mg | Na | SO4 | Cl | HCO3

type_synonym WaterProfile = "ion \<Rightarrow> real"

text \<open>The object literal \<open>{ Ca: a, Mg: b, Na: c, SO4: d, Cl: e, HCO3: f }\<close>.\<close>

definition mkProfile :: "real \<Rightarrow> real \<Rightarrow> real \<Rightarrow> real \<Rightarrow> real \<Rightarrow> real \<Rightarrow> WaterProfile" where
  "mkProfile a b c d e f =
     (\<lambda>i. case i of Ca \<Rightarrow> a | Mg \<Rightarrow> b | Na \<Rightarrow> c | SO4 \<Rightarrow> d | Cl \<Rightarrow> e | HCO3 \<Rightarrow> f)"

fun ion_key :: "ion \<Rightarrow> string" where
  "ion_key Ca = ''Ca''"
| "ion_key Mg = ''Mg''"
| "ion_key Na = ''Na''"
| "ion_key SO4 = ''SO4''"
| "ion_key Cl = ''Cl''"
| "ion_key HCO3 = ''HCO3''"

datatype salt = Gypsum | CalciumChloride | EpsomSalt | TableSalt | BakingSoda

fun salt_key :: "salt \<Rightarrow> string" where
  "salt_key Gypsum = ''Gypsum (CaSO4)''"
| "salt_key CalciumChloride = ''Calcium Chloride (CaCl2)''"
| "salt_key EpsomSalt = ''Epsom Salt (MgSO4)''"
| "salt_key TableSalt = ''Table Salt (NaCl)''"
| "salt_key BakingSoda = ''Baking Soda (NaHCO3)''"

type_synonym SaltAdditions = "salt \<Rightarrow> real"

text \<open>
  The object literal with the five salt keys, in the order in which every such
  literal of the sources lists them.
\<close>

definition mkAdditions :: "real \<Rightarrow> real \<Rightarrow> real \<Rightarrow> real \<Rightarrow> real \<Rightarrow> SaltAdditions" where
  "mkAdditions g c e t b =
     (\<lambda>s. case s of Gypsum \<Rightarrow> g | CalciumChloride \<Rightarrow> c | EpsomSalt \<Rightarrow> e
                   | TableSalt \<Rightarrow> t | BakingSoda \<Rightarrow> b)"

text \<open>\<open>Object.keys\<close> and \<open>Object.values\<close> of a salt-additions object follow this order.\<close>

definition salt_keys :: "salt list" where
  "salt_keys = [Gypsum, CalciumChloride, EpsomSalt, TableSalt, BakingSoda]"

record OptimizationResult =
  saltAdditions :: SaltAdditions
  saltAdditionsDisplay :: SaltAdditions
  calculatedProfile :: WaterProfile
  deviations :: WaterProfile
  feasible :: bool

text \<open>optimizer.ts extends the result type by an optional iteration count.\<close>

record OptimizationResultIter = OptimizationResult +
  iterations :: "nat option"

section \<open>The additive catalog (salts.ts)\<close>

text \<open>
  A catalog entry. The optional per-ion fields of \<open>contributions\<close> are an
  association list in the order the object literal gives them. The \<open>formula\<close>
  field, a display string that no computation reads, is left out.
\<close>

record Salt =
  name :: string
  molecularWeight :: real
  contributions :: "(ion \<times> real) list"
  solubility :: real

definition BREWING_SALTS :: "Salt list" where
  "BREWING_SALTS =
     [\<lparr>name = ''Gypsum (CaSO4)'', molecularWeight = 172.17,
       contributions = [(Ca, 232.8), (SO4, 557.9)], solubility = 2.1\<rparr>,
      \<lparr>name = ''Calcium Chloride (CaCl2)'', molecularWeight = 147.01,
       contributions = [(Ca, 272.6), (Cl, 482.3)], solubility = 745\<rparr>,
      \<lparr>name = ''Epsom Salt (MgSO4)'', molecularWeight = 246.47,
       contributions = [(Mg, 98.6), (SO4, 389.6)], solubility = 710\<rparr>,
      \<lparr>name = ''Table Salt (NaCl)'', molecularWeight = 58.44,
       contributions = [(Na, 393.4), (Cl, 606.6)], solubility = 360\<rparr>,
      \<lparr>name = ''Baking Soda (NaHCO3)'', molecularWeight = 84.01,
       contributions = [(Na, 273.6), (HCO3, 726.4)], solubility = 96\<rparr>]"

text \<open>\<open>Object.fromEntries\<close>: a later entry with the same key would win.\<close>

definition SALT_BY_NAME :: "string \<rightharpoonup> Salt" where
  "SALT_BY_NAME = map_of (rev (map (\<lambda>salt. (name salt, salt)) BREWING_SALTS))"

text \<open>
  \<open>SALT_BY_NAME[key].contributions.X!\<close>: every lookup made below is of a key and
  an ion that the table holds (lemma \<open>ION_CONTRIBUTIONS_eval\<close>).
\<close>

definition contribution_of :: "string \<Rightarrow> ion \<Rightarrow> real" where
  "contribution_of key i = the (map_of (contributions (the (SALT_BY_NAME key))) i)"

record IonContributions =
  gypsum :: "(ion \<times> real) list"
  calciumChloride :: "(ion \<times> real) list"
  epsomSalt :: "(ion \<times> real) list"
  tableSalt :: "(ion \<times> real) list"
  bakingSoda :: "(ion \<times> real) list"

definition ION_CONTRIBUTIONS :: IonContributions where
  "ION_CONTRIBUTIONS =
     \<lparr>gypsum = [(Ca, contribution_of ''Gypsum (CaSO4)'' Ca),
                (SO4, contribution_of ''Gypsum (CaSO4)'' SO4)],
      calciumChloride = [(Ca, contribution_of ''Calcium Chloride (CaCl2)'' Ca),
                         (Cl, contribution_of ''Calcium Chloride (CaCl2)'' Cl)],
      epsomSalt = [(Mg, contribution_of ''Epsom Salt (MgSO4)'' Mg),
                   (SO4, contribution_of ''Epsom Salt (MgSO4)'' SO4)],
      tableSalt = [(Na, contribution_of ''Table Salt (NaCl)'' Na),
                   (Cl, contribution_of ''Table Salt (NaCl)'' Cl)],
      bakingSoda = [(Na, contribution_of ''Baking Soda (NaHCO3)'' Na),
                    (HCO3, contribution_of ''Baking Soda (NaHCO3)'' HCO3)]\<rparr>"

section \<open>The problem builder (optimizer-qp.ts, buildQuadprogMatrices)\<close>

text \<open>
  JavaScript arrays are lists. Reading past the end gives \<open>undefined\<close>
  (\<open>None\<close>); \<open>x || 0\<close> replaces \<open>undefined\<close> and 0 by 0.
\<close>

definition js_index :: "'a list \<Rightarrow> nat \<Rightarrow> 'a option" where
  "js_index xs i = (if i < length xs then Some (xs ! i) else None)"

fun js_or0 :: "real option \<Rightarrow> real" where
  "js_or0 None = 0"
| "js_or0 (Some x) = (if x = 0 then 0 else x)"

definition ions :: "ion list" where
  "ions = [Ca, Mg, Na, SO4, Cl, HCO3]"

text \<open>The \<open>salts\<close> array of buildQuadprogMatrices: a key and the salt's ion table.\<close>

definition qp_salts :: "(string \<times> (ion \<times> real) list) list" where
  "qp_salts =
     [(''gypsum'', gypsum ION_CONTRIBUTIONS),
      (''cacl2'', calciumChloride ION_CONTRIBUTIONS),
      (''epsom'', epsomSalt ION_CONTRIBUTIONS),
      (''nacl'', tableSalt ION_CONTRIBUTIONS),
      (''nahco3'', bakingSoda ION_CONTRIBUTIONS)]"

record QuadprogMatrices =
  H :: "real list list"
  dvec :: "real list"
  Amat :: "real list list"
  bvec :: "real list"
  A :: "real list list"
  needed :: "real list"
  numSalts :: nat
  numIons :: nat

text \<open>
  The initialising loops \<open>for i = 0..rows: M[i] = []; for j = 0..cols: M[i][j] = 0\<close>
  build a matrix of zeros with rows 0..rows and columns 0..cols.
\<close>

definition zeros :: "nat \<Rightarrow> nat \<Rightarrow> real list list" where
  "zeros rows cols = map (\<lambda>i. map (\<lambda>j. 0) [0..<Suc cols]) [0..<Suc rows]"

text \<open>The assignment \<open>M[i][j] = v\<close> inside an existing matrix.\<close>

definition set2 :: "real list list \<Rightarrow> nat \<Rightarrow> nat \<Rightarrow> real \<Rightarrow> real list list" where
  "set2 M i j v = M[i := (M ! i)[j := v]]"

text \<open>
  All matrices and vectors are 1-indexed: row 0 and column 0 stay zero. Each
  \<open>for\<close> loop over \<open>1..n\<close> is a \<open>fold\<close> over \<open>[1..<Suc n]\<close>, and each
  running \<open>sum\<close> is the accumulator of a fold. \<open>dvec[i] = v\<close> and
  \<open>bvec[i] = v\<close> assign at the current length, which appends.
\<close>

definition fillA :: "real \<Rightarrow> nat \<Rightarrow> nat \<Rightarrow> real list list \<Rightarrow> real list list" where
  "fillA volumeLiters nIons nSalts A0 =
     fold (\<lambda>ionIdx A1.
        let ion = ions ! (ionIdx - 1) in
        fold (\<lambda>saltIdx A2.
           let salt = qp_salts ! (saltIdx - 1);
               contribution = js_or0 (map_of (snd salt) ion)
           in if contribution > 0 then set2 A2 ionIdx saltIdx (contribution / volumeLiters)
              else A2)
          [1..<Suc nSalts] A1)
       [1..<Suc nIons] A0"

definition fillH :: "real list list \<Rightarrow> nat \<Rightarrow> nat \<Rightarrow> real list list \<Rightarrow> real list list" where
  "fillH A1 nIons nSalts H0 =
     fold (\<lambda>i H1.
        fold (\<lambda>j H2.
           let sum = fold (\<lambda>k sum. sum + A1 ! k ! i * A1 ! k ! j) [1..<Suc nIons] 0
           in set2 H2 i j (2 * sum))
          [1..<Suc nSalts] H1)
       [1..<Suc nSalts] H0"

definition fill_dvec :: "real list list \<Rightarrow> real list \<Rightarrow> nat \<Rightarrow> nat \<Rightarrow> real list" where
  "fill_dvec A1 needed1 nIons nSalts =
     fold (\<lambda>i dvec1.
        let sum = fold (\<lambda>k sum. sum + A1 ! k ! i * needed1 ! k) [1..<Suc nIons] 0
        in dvec1 @ [2 * sum])
       [1..<Suc nSalts] [0]"

definition buildQuadprogMatrices ::
  "real \<Rightarrow> WaterProfile \<Rightarrow> WaterProfile \<Rightarrow> QuadprogMatrices" where
  "buildQuadprogMatrices volumeLiters baseProfile targetProfile =
     (let nSalts = length qp_salts;
          nIons = length ions;
          needed1 = fold (\<lambda>ion n. n @ [targetProfile ion - baseProfile ion]) ions [0];
          A1 = fillA volumeLiters nIons nSalts (zeros nIons nSalts);
          H1 = fillH A1 nIons nSalts (zeros nSalts nSalts);
          dvec1 = fill_dvec A1 needed1 nIons nSalts;
          numConstraints = nSalts;
          Amat1 = fold (\<lambda>i M. set2 M i i 1) [1..<Suc nSalts] (zeros nSalts numConstraints);
          bvec1 = fold (\<lambda>i b. b @ [0]) [1..<Suc numConstraints] [0]
      in \<lparr>H = H1, dvec = dvec1, Amat = Amat1, bvec = bvec1, A = A1, needed = needed1,
          numSalts = nSalts, numIons = nIons\<rparr>)"

section \<open>Rounding\<close>

text \<open>
  \<open>Math.round(x)\<close> is the integer nearest to \<open>x\<close>, ties going up:
  \<open>floor(x + 0.5)\<close>.
\<close>

definition Math_round :: "real \<Rightarrow> real" where
  "Math_round x = of_int \<lfloor>x + 1 / 2\<rfloor>"

text \<open>The recurring expression \<open>Math.round(x * 10) / 10\<close>.\<close>

definition round1 :: "real \<Rightarrow> real" where
  "round1 x = Math_round (x * 10) / 10"

text \<open>
  optimizer.ts, \<open>roundSmallAdditions\<close>: a copy of the object in which every
  value below the threshold 0.1 becomes 0 and every other value is rounded to one
  decimal place. \<open>roundSmall\<close> is the body of the \<open>forEach\<close> over the keys.
\<close>

definition roundSmall :: "real \<Rightarrow> real" where
  "roundSmall v = (let threshold = 1 / 10 in
     if v < threshold then 0 else Math_round (v * 10) / 10)"

definition roundSmallAdditions :: "SaltAdditions \<Rightarrow> SaltAdditions" where
  "roundSmallAdditions sa =
     fold (\<lambda>salt rounded. rounded(salt := roundSmall (rounded salt))) salt_keys sa"

section \<open>The external solver and its observable effects\<close>

text \<open>
  \<open>solveQP\<close> of the quadprog package is not part of the repository: it is a
  parameter of the model. A call either throws or returns; the code then tests
  \<open>!result || !result.solution\<close>, so the returned value may be absent and so
  may its \<open>solution\<close> array. An absent \<open>message\<close> is the empty string.
\<close>

datatype js_error = Error string

record QPResult =
  solution :: "real list option"
  message :: string

datatype solveQP_outcome = Throws js_error | Returns "QPResult option"

type_synonym solveQP_fn =
  "real list list \<Rightarrow> real list \<Rightarrow> real list list \<Rightarrow> real list \<Rightarrow> nat \<Rightarrow> solveQP_outcome"

text \<open>
  What a run does besides returning: the solver calls it makes, with their
  arguments, and the lines it writes with \<open>console.error\<close> (the label only).
\<close>

datatype event =
  SolveQP_called "real list list" "real list" "real list list" "real list" nat
| Console_error string

section \<open>The optimizer (optimizer-qp.ts, optimizeWithQP)\<close>

text \<open>The \<open>salts\<close> array of optimizeWithQP: the key of each salt and its ion table.\<close>

definition opt_salts :: "(salt \<times> (ion \<times> real) list) list" where
  "opt_salts =
     [(Gypsum, gypsum ION_CONTRIBUTIONS),
      (CalciumChloride, calciumChloride ION_CONTRIBUTIONS),
      (EpsomSalt, epsomSalt ION_CONTRIBUTIONS),
      (TableSalt, tableSalt ION_CONTRIBUTIONS),
      (BakingSoda, bakingSoda ION_CONTRIBUTIONS)]"

text \<open>
  Lines 172 to 201: starting from a copy of the base profile, every salt whose
  precise amount is positive adds \<open>contribution * amount / volumeLiters\<close> to
  each ion it contributes; the last loop stores every value back unchanged.
\<close>

definition applyContributions :: "real \<Rightarrow> WaterProfile \<Rightarrow> SaltAdditions \<Rightarrow> WaterProfile" where
  "applyContributions volumeLiters baseProfile precise =
     (let profile1 =
            fold (\<lambda>(key, table) profile.
               let amount = precise key in
               if amount > 0
               then fold (\<lambda>(ion, contribution) profile2.
                      if contribution > 0
                      then profile2(ion := profile2 ion + (contribution * amount) / volumeLiters)
                      else profile2)
                    table profile
               else profile)
              opt_salts baseProfile
      in fold (\<lambda>ion profile. profile(ion := profile ion)) ions profile1)"

text \<open>Lines 154 to 219: the result built from the solver's solution array.\<close>

definition feasibleResult ::
  "real \<Rightarrow> WaterProfile \<Rightarrow> WaterProfile \<Rightarrow> real list \<Rightarrow> OptimizationResult" where
  "feasibleResult volumeLiters baseProfile targetProfile sol =
     (let precise = mkAdditions (js_or0 (js_index sol 1)) (js_or0 (js_index sol 2))
                      (js_or0 (js_index sol 3)) (js_or0 (js_index sol 4))
                      (js_or0 (js_index sol 5));
          display = mkAdditions (Math_round (precise Gypsum * 10) / 10)
                      (Math_round (precise CalciumChloride * 10) / 10)
                      (Math_round (precise EpsomSalt * 10) / 10)
                      (Math_round (precise TableSalt * 10) / 10)
                      (Math_round (precise BakingSoda * 10) / 10);
          profile = applyContributions volumeLiters baseProfile precise;
          devs = mkProfile (profile Ca - targetProfile Ca) (profile Mg - targetProfile Mg)
                   (profile Na - targetProfile Na) (profile SO4 - targetProfile SO4)
                   (profile Cl - targetProfile Cl) (profile HCO3 - targetProfile HCO3)
      in \<lparr>saltAdditions = precise, saltAdditionsDisplay = display,
          calculatedProfile = profile, deviations = devs, feasible = True\<rparr>)"

text \<open>Lines 224 to 246: the result returned from the \<open>catch\<close> block.\<close>

definition infeasibleResult :: "WaterProfile \<Rightarrow> WaterProfile \<Rightarrow> OptimizationResult" where
  "infeasibleResult baseProfile targetProfile =
     (let emptyAdditions = mkAdditions 0 0 0 0 0
      in \<lparr>saltAdditions = emptyAdditions, saltAdditionsDisplay = emptyAdditions,
          calculatedProfile = baseProfile,
          deviations = mkProfile (targetProfile Ca - baseProfile Ca)
                         (targetProfile Mg - baseProfile Mg)
                         (targetProfile Na - baseProfile Na)
                         (targetProfile SO4 - baseProfile SO4)
                         (targetProfile Cl - baseProfile Cl)
                         (targetProfile HCO3 - baseProfile HCO3),
          feasible = False\<rparr>)"

text \<open>Lines 140 to 148: the matrices are built and handed to the solver, with \<open>meq = 0\<close>.\<close>

definition solver_call :: "real \<Rightarrow> WaterProfile \<Rightarrow> WaterProfile \<Rightarrow> event" where
  "solver_call volumeLiters baseProfile targetProfile =
     (let m = buildQuadprogMatrices volumeLiters baseProfile targetProfile
      in SolveQP_called (H m) (dvec m) (Amat m) (bvec m) 0)"

definition run_solver ::
  "solveQP_fn \<Rightarrow> real \<Rightarrow> WaterProfile \<Rightarrow> WaterProfile \<Rightarrow> solveQP_outcome" where
  "run_solver solveQP volumeLiters baseProfile targetProfile =
     (let m = buildQuadprogMatrices volumeLiters baseProfile targetProfile
      in solveQP (H m) (dvec m) (Amat m) (bvec m) 0)"

text \<open>
  The body of the \<open>try\<close> block: the solver's exception passes through, a missing
  result or solution raises \<open>QP solver failed: ...\<close>, and otherwise the result is
  built from the solution.
\<close>

definition optimizeWithQP_try ::
  "solveQP_fn \<Rightarrow> real \<Rightarrow> WaterProfile \<Rightarrow> WaterProfile \<Rightarrow> js_error + OptimizationResult" where
  "optimizeWithQP_try solveQP volumeLiters baseProfile targetProfile =
     (case run_solver solveQP volumeLiters baseProfile targetProfile of
        Throws e \<Rightarrow> Inl e
      | Returns None \<Rightarrow> Inl (Error (''QP solver failed: '' @ ''No solution found''))
      | Returns (Some result) \<Rightarrow>
          (case solution result of
             None \<Rightarrow> Inl (Error (''QP solver failed: '' @
                        (if message result = [] then ''No solution found'' else message result)))
           | Some sol \<Rightarrow> Inr (feasibleResult volumeLiters baseProfile targetProfile sol)))"

text \<open>
  optimizeWithQP: the \<open>catch\<close> block logs the error and returns the infeasible
  result. The second component lists the effects of the run in order.
\<close>

definition optimizeWithQP ::
  "solveQP_fn \<Rightarrow> real \<Rightarrow> WaterProfile \<Rightarrow> WaterProfile \<Rightarrow> OptimizationResult \<times> event list" where
  "optimizeWithQP solveQP volumeLiters baseProfile targetProfile =
     (case optimizeWithQP_try solveQP volumeLiters baseProfile targetProfile of
        Inr result \<Rightarrow> (result, [solver_call volumeLiters baseProfile targetProfile])
      | Inl e \<Rightarrow>
          (infeasibleResult baseProfile targetProfile,
           [solver_call volumeLiters baseProfile targetProfile,
            Console_error ''QP optimization failed:'']))"

section \<open>The orchestrator (optimizer.ts, optimizeSaltAdditions)\<close>

text \<open>
  The result of optimizeWithQP is returned with \<open>iterations: 1\<close> added when it is
  feasible; when it is not, an \<open>Error\<close> is thrown.
\<close>

definition optimizeSaltAdditions ::
  "solveQP_fn \<Rightarrow> real \<Rightarrow> WaterProfile \<Rightarrow> WaterProfile
     \<Rightarrow> (js_error + OptimizationResultIter) \<times> event list" where
  "optimizeSaltAdditions solveQP volumeLiters baseProfile targetProfile =
     (case optimizeWithQP solveQP volumeLiters baseProfile targetProfile of
        (result, trace) \<Rightarrow>
          if \<not> feasible result
          then (Inl (Error ''Unable to find a feasible solution for the target water profile''), trace)
          else (Inr (OptimizationResult.extend result
                       (OptimizationResultIter.fields (Some 1))), trace))"

section \<open>Input validation (validator.ts)\<close>

text \<open>
  The volume as the validator receives it: a JavaScript number that may be NaN
  or infinite. The profiles handed to the validator and to the optimizer hold
  finite reals, so the test \<open>!isFinite(value)\<close> of validateWaterProfile never
  fires in the model.
\<close>

datatype jsnum = Finite real | NaN | PosInfinity | NegInfinity

fun isFinite :: "jsnum \<Rightarrow> bool" where
  "isFinite (Finite v) = True"
| "isFinite NaN = False"
| "isFinite PosInfinity = False"
| "isFinite NegInfinity = False"

record ValidationResult =
  valid :: bool
  errors :: "string list"

text \<open>
  VALIDATION_RANGES. The bounds of the ions are whole numbers; the template
  strings print them in decimal (\<open>string_of_nat\<close>).
\<close>

definition volume_min :: real where "volume_min = 0.1"

definition volume_max :: real where "volume_max = 1000"

fun ion_range :: "ion \<Rightarrow> nat \<times> nat" where
  "ion_range Ca = (0, 1000)"
| "ion_range Mg = (0, 200)"
| "ion_range Na = (0, 500)"
| "ion_range SO4 = (0, 2000)"
| "ion_range Cl = (0, 1000)"
| "ion_range HCO3 = (0, 1000)"

fun string_of_nat :: "nat \<Rightarrow> string" where
  "string_of_nat n =
     (if n < 10 then [''0123456789'' ! n]
      else string_of_nat (n div 10) @ [''0123456789'' ! (n mod 10)])"

declare string_of_nat.simps [simp del]

definition validateWaterProfile :: "WaterProfile \<Rightarrow> string \<Rightarrow> ValidationResult" where
  "validateWaterProfile profile profileType =
     (let requiredIons = [Ca, Mg, Na, SO4, Cl, HCO3];
          errs = fold (\<lambda>ion errs.
                   let v = profile ion; range = ion_range ion in
                   if v < real (fst range) \<or> v > real (snd range)
                   then errs @ [profileType @ '' profile: '' @ ion_key ion @
                                '' must be between '' @ string_of_nat (fst range) @
                                '' and '' @ string_of_nat (snd range) @ '' ppm'']
                   else errs)
                 requiredIons []
      in \<lparr>valid = (length errs = 0), errors = errs\<rparr>)"

definition validateInputs :: "jsnum \<Rightarrow> WaterProfile \<Rightarrow> WaterProfile \<Rightarrow> ValidationResult" where
  "validateInputs volumeLiters baseProfile targetProfile =
     (let errs0 =
            (case volumeLiters of
               Finite v \<Rightarrow>
                 if v \<le> 0 then [''volume must be positive'']
                 else if v < volume_min \<or> v > volume_max
                 then [''volume must be between 0.1 and 1000 liters'']
                 else []
             | _ \<Rightarrow> [''volume must be a valid number'']);
          baseValidation = validateWaterProfile baseProfile ''base'';
          targetValidation = validateWaterProfile targetProfile ''target'';
          errs = errs0 @ errors baseValidation @ errors targetValidation
      in \<lparr>valid = (length errs = 0), errors = errs\<rparr>)"

section \<open>Arithmetic on JavaScript numbers\<close>

text \<open>
  The operators of JavaScript on numbers that may be NaN or infinite, as
  IEEE 754 defines them on the special values. On finite values they are the
  exact operations on reals. The sign of a zero is not modelled: a zero divisor
  counts as positive zero, and a quotient by an infinity is plain zero.
\<close>

fun js_neg :: "jsnum \<Rightarrow> jsnum" where
  "js_neg (Finite a) = Finite (- a)"
| "js_neg NaN = NaN"
| "js_neg PosInfinity = NegInfinity"
| "js_neg NegInfinity = PosInfinity"

fun js_add :: "jsnum \<Rightarrow> jsnum \<Rightarrow> jsnum" where
  "js_add (Finite a) (Finite b) = Finite (a + b)"
| "js_add NaN y = NaN"
| "js_add x NaN = NaN"
| "js_add PosInfinity NegInfinity = NaN"
| "js_add NegInfinity PosInfinity = NaN"
| "js_add PosInfinity y = PosInfinity"
| "js_add x PosInfinity = PosInfinity"
| "js_add NegInfinity y = NegInfinity"
| "js_add x NegInfinity = NegInfinity"

definition js_sub :: "jsnum \<Rightarrow> jsnum \<Rightarrow> jsnum" where
  "js_sub x y = js_add x (js_neg y)"

text \<open>The infinity of the sign of a non-zero real, and the product or quotient of an
  infinity of the given sign with such a real.\<close>

definition signed_infinity :: "bool \<Rightarrow> jsnum" where
  "signed_infinity positive = (if positive then PosInfinity else NegInfinity)"

fun js_mul :: "jsnum \<Rightarrow> jsnum \<Rightarrow> jsnum" where
  "js_mul (Finite a) (Finite b) = Finite (a * b)"
| "js_mul NaN y = NaN"
| "js_mul x NaN = NaN"
| "js_mul PosInfinity (Finite b) = (if b = 0 then NaN else signed_infinity (b > 0))"
| "js_mul NegInfinity (Finite b) = (if b = 0 then NaN else signed_infinity (b < 0))"
| "js_mul (Finite a) PosInfinity = (if a = 0 then NaN else signed_infinity (a > 0))"
| "js_mul (Finite a) NegInfinity = (if a = 0 then NaN else signed_infinity (a < 0))"
| "js_mul PosInfinity PosInfinity = PosInfinity"
| "js_mul PosInfinity NegInfinity = NegInfinity"
| "js_mul NegInfinity PosInfinity = NegInfinity"
| "js_mul NegInfinity NegInfinity = PosInfinity"

fun js_div :: "jsnum \<Rightarrow> jsnum \<Rightarrow> jsnum" where
  "js_div (Finite a) (Finite b) =
     (if b = 0 then (if a = 0 then NaN else signed_infinity (a > 0)) else Finite (a / b))"
| "js_div NaN y = NaN"
| "js_div x NaN = NaN"
| "js_div (Finite a) PosInfinity = Finite 0"
| "js_div (Finite a) NegInfinity = Finite 0"
| "js_div PosInfinity (Finite b) = signed_infinity (b \<ge> 0)"
| "js_div NegInfinity (Finite b) = signed_infinity (b < 0)"
| "js_div PosInfinity PosInfinity = NaN"
| "js_div PosInfinity NegInfinity = NaN"
| "js_div NegInfinity PosInfinity = NaN"
| "js_div NegInfinity NegInfinity = NaN"

text \<open>Comparisons: every comparison with NaN is false.\<close>

fun js_lt :: "jsnum \<Rightarrow> jsnum \<Rightarrow> bool" where
  "js_lt (Finite a) (Finite b) = (a < b)"
| "js_lt NaN y = False"
| "js_lt x NaN = False"
| "js_lt PosInfinity y = False"
| "js_lt x NegInfinity = False"
| "js_lt NegInfinity y = True"
| "js_lt x PosInfinity = True"

definition js_gt :: "jsnum \<Rightarrow> jsnum \<Rightarrow> bool" where
  "js_gt x y = js_lt y x"

fun js_le :: "jsnum \<Rightarrow> jsnum \<Rightarrow> bool" where
  "js_le (Finite a) (Finite b) = (a \<le> b)"
| "js_le NaN y = False"
| "js_le x NaN = False"
| "js_le NegInfinity y = True"
| "js_le x PosInfinity = True"
| "js_le PosInfinity y = False"
| "js_le x NegInfinity = False"

text \<open>\<open>Math.round\<close> leaves NaN and the infinities as they are.\<close>

fun js_round :: "jsnum \<Rightarrow> jsnum" where
  "js_round (Finite a) = Finite (Math_round a)"
| "js_round NaN = NaN"
| "js_round PosInfinity = PosInfinity"
| "js_round NegInfinity = NegInfinity"

section \<open>Brewing analysis (brewing-analysis.ts)\<close>

text \<open>
  The repository holds this file twice; the two copies differ only in the
  spelling of the field names. The one modelled is the copy whose names agree
  with calculator.ts.

  calculateBrewingAnalysis is exported, and calculateWaterAdditions calls it on
  the base profile also when validation has failed. Its argument is therefore a
  profile of JavaScript numbers, any of which may be NaN or infinite.
\<close>

type_synonym JsWaterProfile = "ion \<Rightarrow> jsnum"

text \<open>A profile of finite values, seen as a profile of JavaScript numbers.\<close>

definition js_profile :: "WaterProfile \<Rightarrow> JsWaterProfile" where
  "js_profile p = (\<lambda>i. Finite (p i))"

record BrewingAnalysis =
  alkalinity :: jsnum
  residual_alkalinity :: jsnum
  sulfate_chloride_ratio :: "jsnum option"
  sulfate_chloride_balance :: string
  total_hardness :: jsnum
  effective_hardness :: jsnum
  color_range :: string

fun getSulfateChlorideBalance :: "jsnum option \<Rightarrow> string" where
  "getSulfateChlorideBalance None = ''N/A (No Chloride)''"
| "getSulfateChlorideBalance (Some ratio) =
     (if js_lt ratio (Finite 0.4) then ''Very Malty''
      else if js_lt ratio (Finite 0.6) then ''Malty''
      else if js_lt ratio (Finite 0.8) then ''Slightly Malty''
      else if js_lt ratio (Finite 1.2) then ''Balanced''
      else if js_lt ratio (Finite 2.0) then ''Slightly Bitter''
      else if js_lt ratio (Finite 3.0) then ''Bitter''
      else ''Very Bitter'')"

definition getColorRange :: "jsnum \<Rightarrow> string" where
  "getColorRange ra =
     (if js_lt ra (Finite 0) then ''2-8 EBC (Pilsner)''
      else if js_lt ra (Finite 50) then ''8-20 EBC (Pale)''
      else if js_lt ra (Finite 100) then ''20-35 EBC (Amber)''
      else if js_lt ra (Finite 150) then ''35-50 EBC (Brown)''
      else if js_lt ra (Finite 200) then ''50-60 EBC (Porter)''
      else if js_lt ra (Finite 250) then ''60-70 EBC (Stout)''
      else ''50-70 EBC (Porter/Stout)*'')"

text \<open>The recurring expression \<open>Math.round(x * k) / k\<close> with \<open>k\<close> 10 or 100.\<close>

definition js_round_to :: "real \<Rightarrow> jsnum \<Rightarrow> jsnum" where
  "js_round_to k x = js_div (js_round (js_mul x (Finite k))) (Finite k)"

definition calculateBrewingAnalysis :: "JsWaterProfile \<Rightarrow> BrewingAnalysis" where
  "calculateBrewingAnalysis profile =
     (let alk = js_mul (profile HCO3) (Finite (50 / 61));
          ra = js_sub alk (js_add (js_div (profile Ca) (Finite 1.4))
                                  (js_div (profile Mg) (Finite 1.7)));
          ratio = (if js_gt (profile Cl) (Finite 0)
                   then Some (js_div (profile SO4) (profile Cl)) else None);
          balance = getSulfateChlorideBalance ratio;
          total = js_add (profile Ca) (profile Mg);
          effective = js_add (js_div (profile Ca) (Finite 1.4))
                             (js_div (profile Mg) (Finite 1.7));
          colour = getColorRange ra
      in \<lparr>alkalinity = js_round_to 10 alk,
          residual_alkalinity = js_round_to 10 ra,
          sulfate_chloride_ratio =
            (case ratio of Some r \<Rightarrow> Some (js_round_to 100 r) | None \<Rightarrow> None),
          sulfate_chloride_balance = balance,
          total_hardness = js_round_to 10 total,
          effective_hardness = js_round_to 10 effective,
          color_range = colour\<rparr>)"

section \<open>The calculator (calculator.ts, calculateWaterAdditions)\<close>

record CalculationInput =
  volume_liters :: jsnum
  base_profile :: WaterProfile
  target_profile :: WaterProfile

record CalculationResult =
  success :: bool
  error :: "string option"
  additions :: SaltAdditions
  calculated_profile :: WaterProfile
  deviations :: WaterProfile
  total_salt_weight :: real
  brewing_analysis :: BrewingAnalysis

definition createEmptyAdditions :: SaltAdditions where
  "createEmptyAdditions = mkAdditions 0 0 0 0 0"

definition createZeroDeviations :: WaterProfile where
  "createZeroDeviations = mkProfile 0 0 0 0 0 0"

text \<open>\<open>errors.join(sep)\<close>.\<close>

fun join :: "string \<Rightarrow> string list \<Rightarrow> string" where
  "join sep [] = []"
| "join sep [x] = x"
| "join sep (x # y # ys) = x @ sep @ join sep (y # ys)"

text \<open>
  The number behind a volume that passed validation; a volume that is not
  finite never passes (lemma \<open>valid_volume\<close>).
\<close>

fun finite_value :: "jsnum \<Rightarrow> real" where
  "finite_value (Finite v) = v"
| "finite_value _ = undefined"

text \<open>Steps 3 to 7 and the returned object of the success path.\<close>

definition successResult :: "OptimizationResultIter \<Rightarrow> CalculationResult" where
  "successResult optimizationResult =
     (let displayAdditions = roundSmallAdditions (saltAdditionsDisplay optimizationResult);
          calc = calculatedProfile optimizationResult;
          displayProfile = mkProfile (Math_round (calc Ca * 10) / 10)
                             (Math_round (calc Mg * 10) / 10) (Math_round (calc Na * 10) / 10)
                             (Math_round (calc SO4 * 10) / 10) (Math_round (calc Cl * 10) / 10)
                             (Math_round (calc HCO3 * 10) / 10);
          devs = OptimizationResult.deviations optimizationResult;
          displayDeviations = mkProfile (Math_round (devs Ca * 10) / 10)
                                (Math_round (devs Mg * 10) / 10) (Math_round (devs Na * 10) / 10)
                                (Math_round (devs SO4 * 10) / 10) (Math_round (devs Cl * 10) / 10)
                                (Math_round (devs HCO3 * 10) / 10);
          totalSaltWeight = foldl (\<lambda>sum weight. sum + weight) 0 (map displayAdditions salt_keys);
          brewingAnalysis = calculateBrewingAnalysis (js_profile displayProfile)
      in \<lparr>success = True, error = None, additions = displayAdditions,
          calculated_profile = displayProfile, deviations = displayDeviations,
          total_salt_weight = Math_round (totalSaltWeight * 10) / 10,
          brewing_analysis = brewingAnalysis\<rparr>)"

text \<open>The object returned by both failure paths, up to its error text.\<close>

definition failureResult :: "string \<Rightarrow> WaterProfile \<Rightarrow> CalculationResult" where
  "failureResult text base =
     \<lparr>success = False, error = Some text, additions = createEmptyAdditions,
      calculated_profile = base, deviations = createZeroDeviations,
      total_salt_weight = 0, brewing_analysis = calculateBrewingAnalysis (js_profile base)\<rparr>"

text \<open>
  calculateWaterAdditions: validation first; a failed validation returns at once.
  Otherwise the optimizer runs, and the \<open>catch\<close> block turns its \<open>Error\<close> into a
  failure result after logging it.
\<close>

definition calculateWaterAdditions ::
  "solveQP_fn \<Rightarrow> CalculationInput \<Rightarrow> CalculationResult \<times> event list" where
  "calculateWaterAdditions solveQP input =
     (let validation = validateInputs (volume_liters input) (base_profile input)
                         (target_profile input)
      in if \<not> valid validation
         then (failureResult (''Input validation failed: '' @ join '', '' (errors validation))
                 (base_profile input), [])
         else (case optimizeSaltAdditions solveQP (finite_value (volume_liters input))
                      (base_profile input) (target_profile input) of
                 (Inr optimizationResult, trace) \<Rightarrow> (successResult optimizationResult, trace)
               | (Inl (Error errorMessage), trace) \<Rightarrow>
                   (failureResult (''Calculation error: '' @ errorMessage) (base_profile input),
                    trace @ [Console_error ''Water chemistry calculation error:''])))"

section \<open>Notions used in the statements\<close>

text \<open>
  The solver failed: the call threw, or the test \<open>!result || !result.solution\<close>
  of optimizeWithQP holds of what it returned.
\<close>

fun qp_failed :: "solveQP_outcome \<Rightarrow> bool" where
  "qp_failed (Throws e) = True"
| "qp_failed (Returns None) = True"
| "qp_failed (Returns (Some result)) = (solution result = None)"

text \<open>
  The catalog's per-unit contribution of a salt to an ion (ppm for one gram in
  one litre), zero when the salt does not contribute the ion.
\<close>

definition per_unit :: "salt \<Rightarrow> ion \<Rightarrow> real" where
  "per_unit s i =
     (case SALT_BY_NAME (salt_key s) of
        None \<Rightarrow> 0
      | Some entry \<Rightarrow> (case map_of (contributions entry) i of None \<Rightarrow> 0 | Some c \<Rightarrow> c))"

section \<open>Example inputs\<close>

text \<open>
  The scenario of the specification: 20 litres, a soft base water and a target
  with more calcium, sulfate and chloride.
\<close>

definition ex_base :: WaterProfile where
  "ex_base = mkProfile 22 2.7 12 6 14 50"

definition ex_target :: WaterProfile where
  "ex_target = mkProfile 48 2.7 12 60 40 50"

definition ex_input :: "jsnum \<Rightarrow> CalculationInput" where
  "ex_input vol = \<lparr>volume_liters = vol, base_profile = ex_base, target_profile = ex_target\<rparr>"

text \<open>
  Three solvers: one that returns nothing, one that returns 1.5 g of gypsum and
  0.52 g of calcium chloride, and one whose solution has a negative component.
\<close>

definition solver_none :: solveQP_fn where
  "solver_none Dmat d M b meq = Returns None"

definition solver_plain :: solveQP_fn where
  "solver_plain Dmat d M b meq =
     Returns (Some \<lparr>solution = Some [0, 1.5, 0.52, 0, 0, 0], message = []\<rparr>)"

definition solver_negative :: solveQP_fn where
  "solver_negative Dmat d M b meq =
     Returns (Some \<lparr>solution = Some [0, - 1, 0, 0, 0, 0], message = []\<rparr>)"

text \<open>
  A solver that reports infeasibility the way quadprog does: through its
  message, together with a solution array.
\<close>

definition solver_message :: solveQP_fn where
  "solver_message Dmat d M b meq =
     Returns (Some \<lparr>solution = Some [0, 1.5, 0.52, 0, 0, 0],
                    message = ''constraints are inconsistent, no solution!''\<rparr>)"

text \<open>The base water with a chloride value that is not a number.\<close>

definition ex_nan_chloride :: JsWaterProfile where
  "ex_nan_chloride = (js_profile ex_base)(Cl := NaN)"

section \<open>Properties of rounding\<close>

lemma Math_round_of_int: "Math_round (of_int n) = of_int n"
proof -
  have "\<lfloor>real_of_int n + 1 / 2\<rfloor> = n"
    by linarith
  then show ?thesis
    by (simp add: Math_round_def)
qed

lemma round1_tenths: "round1 (of_int n / 10) = of_int n / 10"
  by (simp add: round1_def Math_round_of_int)

lemma round1_is_tenths: "\<exists>n. round1 x = of_int n / 10"
  unfolding round1_def Math_round_def by blast

lemma round1_idem: "round1 (round1 x) = round1 x"
proof -
  obtain n where n: "round1 x = of_int n / 10"
    using round1_is_tenths by blast
  show ?thesis
    unfolding n by (rule round1_tenths)
qed

lemma round1_ge_tenth:
  assumes "1 / 10 \<le> x"
  shows "1 / 10 \<le> round1 x"
proof -
  have "1 \<le> \<lfloor>x * 10 + 1 / 2\<rfloor>"
    using assms by linarith
  then have "(1::real) \<le> of_int \<lfloor>x * 10 + 1 / 2\<rfloor>"
    by linarith
  then show ?thesis
    unfolding round1_def Math_round_def by simp
qed

lemma roundSmall_idem: "roundSmall (roundSmall v) = roundSmall v"
proof (cases "v < 1 / 10")
  case True
  then show ?thesis
    by (simp add: roundSmall_def)
next
  case False
  then have r: "roundSmall v = round1 v"
    by (simp add: roundSmall_def round1_def)
  have "\<not> round1 v < 1 / 10"
    using False round1_ge_tenth [of v] by simp
  then have "roundSmall (round1 v) = round1 (round1 v)"
    by (simp add: roundSmall_def round1_def)
  with r show ?thesis
    by (simp add: round1_idem)
qed

lemma roundSmallAdditions_apply: "roundSmallAdditions sa s = roundSmall (sa s)"
  by (cases s) (simp_all add: roundSmallAdditions_def salt_keys_def)

text \<open>
  C8. Display rounding is idempotent: applying \<open>roundSmallAdditions\<close> twice to
  any salt-additions object gives the same object as applying it once.
\<close>

theorem roundSmallAdditions_idempotent:
  "roundSmallAdditions (roundSmallAdditions sa) = roundSmallAdditions sa"
  by (rule ext) (simp add: roundSmallAdditions_apply roundSmall_idem)

section \<open>The two ways out of optimizeWithQP\<close>

lemma optimizeWithQP_failed:
  assumes "qp_failed (run_solver solveQP v b t)"
  shows "optimizeWithQP solveQP v b t =
           (infeasibleResult b t, [solver_call v b t, Console_error ''QP optimization failed:''])"
proof (cases "run_solver solveQP v b t")
  case (Throws e)
  then show ?thesis
    by (simp add: optimizeWithQP_def optimizeWithQP_try_def)
next
  case (Returns ro)
  with assms show ?thesis
    by (cases ro) (simp_all add: optimizeWithQP_def optimizeWithQP_try_def)
qed

lemma optimizeWithQP_solved:
  assumes "run_solver solveQP v b t = Returns (Some r)" and "solution r = Some sol"
  shows "optimizeWithQP solveQP v b t = (feasibleResult v b t sol, [solver_call v b t])"
  using assms by (simp add: optimizeWithQP_def optimizeWithQP_try_def)

lemma infeasibleResult_fields:
  "feasible (infeasibleResult b t) = False"
  "saltAdditions (infeasibleResult b t) s = 0"
  "saltAdditionsDisplay (infeasibleResult b t) s = 0"
  "calculatedProfile (infeasibleResult b t) = b"
  "OptimizationResult.deviations (infeasibleResult b t) i = t i - b i"
  by (simp_all add: infeasibleResult_def Let_def mkAdditions_def mkProfile_def
      split: salt.split ion.split)

lemma feasibleResult_fields:
  "feasible (feasibleResult v b t sol) = True"
  "saltAdditions (feasibleResult v b t sol) =
     mkAdditions (js_or0 (js_index sol 1)) (js_or0 (js_index sol 2)) (js_or0 (js_index sol 3))
       (js_or0 (js_index sol 4)) (js_or0 (js_index sol 5))"
  "saltAdditionsDisplay (feasibleResult v b t sol) s =
     round1 (saltAdditions (feasibleResult v b t sol) s)"
  "calculatedProfile (feasibleResult v b t sol) =
     applyContributions v b (saltAdditions (feasibleResult v b t sol))"
  "OptimizationResult.deviations (feasibleResult v b t sol) i =
     calculatedProfile (feasibleResult v b t sol) i - t i"
  by (simp_all add: feasibleResult_def Let_def mkAdditions_def mkProfile_def round1_def
      split: salt.split ion.split)

lemma optimizeSaltAdditions_failed:
  assumes "qp_failed (run_solver solveQP v b t)"
  shows "optimizeSaltAdditions solveQP v b t =
           (Inl (Error ''Unable to find a feasible solution for the target water profile''),
            [solver_call v b t, Console_error ''QP optimization failed:''])"
  by (simp add: optimizeSaltAdditions_def optimizeWithQP_failed [OF assms]
      infeasibleResult_fields)

lemma optimizeSaltAdditions_solved:
  assumes "run_solver solveQP v b t = Returns (Some r)" and "solution r = Some sol"
  shows "optimizeSaltAdditions solveQP v b t =
           (Inr (OptimizationResult.extend (feasibleResult v b t sol)
                   (OptimizationResultIter.fields (Some 1))),
            [solver_call v b t])"
  by (simp add: optimizeSaltAdditions_def optimizeWithQP_solved [OF assms]
      feasibleResult_fields)

lemma not_failed_cases:
  assumes "\<not> qp_failed (run_solver solveQP v b t)"
  shows "\<exists>r sol. run_solver solveQP v b t = Returns (Some r) \<and> solution r = Some sol"
  using assms by (cases "run_solver solveQP v b t" rule: qp_failed.cases) auto

lemma run_solver_examples:
  "run_solver solver_none v b t = Returns None"
  "run_solver solver_plain v b t =
     Returns (Some \<lparr>solution = Some [0, 1.5, 0.52, 0, 0, 0], message = []\<rparr>)"
  "run_solver solver_negative v b t =
     Returns (Some \<lparr>solution = Some [0, - 1, 0, 0, 0, 0], message = []\<rparr>)"
  "run_solver solver_message v b t =
     Returns (Some \<lparr>solution = Some [0, 1.5, 0.52, 0, 0, 0],
                    message = ''constraints are inconsistent, no solution!''\<rparr>)"
  by (simp_all add: run_solver_def Let_def solver_none_def solver_plain_def
      solver_negative_def solver_message_def)

section \<open>Validation of the example input\<close>

lemma valid_volume:
  assumes "valid (validateInputs vol b t)"
  shows "\<exists>v. vol = Finite v \<and> volume_min \<le> v \<and> v \<le> volume_max"
  using assms
  by (cases vol) (auto simp: validateInputs_def Let_def split: if_splits)

lemma ex_profiles_valid:
  "errors (validateWaterProfile ex_base ty) = []"
  "errors (validateWaterProfile ex_target ty) = []"
  by (simp_all add: validateWaterProfile_def ex_base_def ex_target_def mkProfile_def)

lemma ex_input_valid: "valid (validateInputs (Finite 20) ex_base ex_target)"
  by (simp add: validateInputs_def Let_def ex_profiles_valid volume_min_def volume_max_def)

section \<open>Solver failure\<close>

text \<open>
  C3. Whenever the solver fails (it throws, or returns no result or no
  solution), optimizeWithQP returns a result with \<open>feasible = false\<close>, both
  salt-addition vectors zero in every component, the calculated profile equal
  to the base profile, and the deviation of every ion equal to target minus base.
\<close>

theorem optimizeWithQP_infeasible_fallback:
  assumes "qp_failed (run_solver solveQP volumeLiters baseProfile targetProfile)"
  shows "(let r = fst (optimizeWithQP solveQP volumeLiters baseProfile targetProfile) in
           \<not> feasible r \<and>
           (\<forall>s. saltAdditions r s = 0) \<and>
           (\<forall>s. saltAdditionsDisplay r s = 0) \<and>
           calculatedProfile r = baseProfile \<and>
           (\<forall>i. OptimizationResult.deviations r i = targetProfile i - baseProfile i))"
  by (simp add: optimizeWithQP_failed [OF assms] infeasibleResult_fields)

theorem optimizeWithQP_infeasible_fallback_witness:
  "qp_failed (run_solver solver_none 20 ex_base ex_target) \<and>
   \<not> feasible (fst (optimizeWithQP solver_none 20 ex_base ex_target)) \<and>
   saltAdditions (fst (optimizeWithQP solver_none 20 ex_base ex_target)) Gypsum = 0 \<and>
   saltAdditionsDisplay (fst (optimizeWithQP solver_none 20 ex_base ex_target)) Gypsum = 0 \<and>
   calculatedProfile (fst (optimizeWithQP solver_none 20 ex_base ex_target)) = ex_base \<and>
   OptimizationResult.deviations (fst (optimizeWithQP solver_none 20 ex_base ex_target)) Ca = 26"
proof -
  have f: "qp_failed (run_solver solver_none 20 ex_base ex_target)"
    by (simp add: run_solver_examples)
  show ?thesis
    using f optimizeWithQP_infeasible_fallback [OF f]
    by (simp add: Let_def ex_base_def ex_target_def mkProfile_def)
qed

text \<open>
  C2, as the code has it. When the solver throws, or returns no result or a
  result without a solution array, optimizeWithQP returns the infeasible
  outcome as an ordinary value with \<open>feasible = false\<close>, but
  optimizeSaltAdditions does not pass it on: it throws the error
  \<open>Unable to find a feasible solution for the target water profile\<close>, which
  calculateWaterAdditions, for a validated input, catches and returns as an
  ordinary failure result carrying its text. In every other case, that is
  whenever the solver returns a result with a solution array, whatever its
  message says, optimizeWithQP reports \<open>feasible = true\<close> and
  optimizeSaltAdditions returns that result. So optimizeSaltAdditions never
  returns a result whose feasibility field is false.
\<close>

theorem infeasible_value_then_raised:
  "(qp_failed (run_solver solveQP volumeLiters baseProfile targetProfile) \<longrightarrow>
      \<not> feasible (fst (optimizeWithQP solveQP volumeLiters baseProfile targetProfile)) \<and>
      fst (optimizeSaltAdditions solveQP volumeLiters baseProfile targetProfile) =
        Inl (Error ''Unable to find a feasible solution for the target water profile'') \<and>
      (valid (validateInputs (Finite volumeLiters) baseProfile targetProfile) \<longrightarrow>
         fst (calculateWaterAdditions solveQP
                \<lparr>volume_liters = Finite volumeLiters, base_profile = baseProfile,
                 target_profile = targetProfile\<rparr>) =
           failureResult
             ''Calculation error: Unable to find a feasible solution for the target water profile''
             baseProfile)) \<and>
   (\<not> qp_failed (run_solver solveQP volumeLiters baseProfile targetProfile) \<longrightarrow>
      feasible (fst (optimizeWithQP solveQP volumeLiters baseProfile targetProfile)) \<and>
      fst (optimizeSaltAdditions solveQP volumeLiters baseProfile targetProfile) =
        Inr (OptimizationResult.extend
               (fst (optimizeWithQP solveQP volumeLiters baseProfile targetProfile))
               (OptimizationResultIter.fields (Some 1))))"
proof (cases "qp_failed (run_solver solveQP volumeLiters baseProfile targetProfile)")
  case True
  then show ?thesis
    by (simp add: optimizeWithQP_failed [OF True] optimizeSaltAdditions_failed [OF True]
        infeasibleResult_fields calculateWaterAdditions_def Let_def)
next
  case False
  then obtain r sol where
    r: "run_solver solveQP volumeLiters baseProfile targetProfile = Returns (Some r)"
    and sol: "solution r = Some sol"
    using not_failed_cases by blast
  show ?thesis
    using False
    by (simp add: optimizeWithQP_solved [OF r sol] optimizeSaltAdditions_solved [OF r sol]
        feasibleResult_fields)
qed

theorem infeasible_value_then_raised_witness:
  "qp_failed (run_solver solver_none 20 ex_base ex_target) \<and>
   valid (validateInputs (Finite 20) ex_base ex_target) \<and>
   \<not> feasible (fst (optimizeWithQP solver_none 20 ex_base ex_target)) \<and>
   fst (optimizeSaltAdditions solver_none 20 ex_base ex_target) =
     Inl (Error ''Unable to find a feasible solution for the target water profile'') \<and>
   success (fst (calculateWaterAdditions solver_none (ex_input (Finite 20)))) = False \<and>
   error (fst (calculateWaterAdditions solver_none (ex_input (Finite 20)))) =
     Some ''Calculation error: Unable to find a feasible solution for the target water profile'' \<and>
   \<not> qp_failed (run_solver solver_message 20 ex_base ex_target) \<and>
   feasible (fst (optimizeWithQP solver_message 20 ex_base ex_target)) \<and>
   fst (optimizeSaltAdditions solver_message 20 ex_base ex_target) =
     Inr (OptimizationResult.extend (fst (optimizeWithQP solver_message 20 ex_base ex_target))
            (OptimizationResultIter.fields (Some 1)))"
proof -
  have f: "qp_failed (run_solver solver_none 20 ex_base ex_target)"
    by (simp add: run_solver_examples)
  have g: "\<not> qp_failed (run_solver solver_message 20 ex_base ex_target)"
    by (simp add: run_solver_examples)
  show ?thesis
    using f g ex_input_valid
      infeasible_value_then_raised [of solver_none 20 ex_base ex_target]
      infeasible_value_then_raised [of solver_message 20 ex_base ex_target]
    by (simp add: ex_input_def failureResult_def)
qed

text \<open>
  The claim C2 as stated fails both ways. With a solver that returns nothing,
  optimizeSaltAdditions ends in the thrown error, not in a result. With a solver
  that reports infeasibility through its message and returns a solution array,
  optimizeSaltAdditions returns a result whose feasibility field is true.
\<close>

theorem optimizeSaltAdditions_infeasible_counterexample:
  "qp_failed (run_solver solver_none 20 ex_base ex_target) \<and>
   fst (optimizeSaltAdditions solver_none 20 ex_base ex_target) =
     Inl (Error ''Unable to find a feasible solution for the target water profile'') \<and>
   run_solver solver_message 20 ex_base ex_target =
     Returns (Some \<lparr>solution = Some [0, 1.5, 0.52, 0, 0, 0],
                    message = ''constraints are inconsistent, no solution!''\<rparr>) \<and>
   fst (optimizeSaltAdditions solver_message 20 ex_base ex_target) =
     Inr (OptimizationResult.extend
            (feasibleResult 20 ex_base ex_target [0, 1.5, 0.52, 0, 0, 0])
            (OptimizationResultIter.fields (Some 1))) \<and>
   feasible (feasibleResult 20 ex_base ex_target [0, 1.5, 0.52, 0, 0, 0])"
proof -
  have s: "optimizeSaltAdditions solver_message 20 ex_base ex_target =
             (Inr (OptimizationResult.extend
                     (feasibleResult 20 ex_base ex_target [0, 1.5, 0.52, 0, 0, 0])
                     (OptimizationResultIter.fields (Some 1))),
              [solver_call 20 ex_base ex_target])"
    by (rule optimizeSaltAdditions_solved [OF run_solver_examples(4)]) simp
  show ?thesis
    by (simp add: run_solver_examples optimizeSaltAdditions_failed s feasibleResult_fields(1))
qed

section \<open>Negative solver components\<close>

text \<open>
  C1, as the code has it. When the solver returns a solution, the run is
  reported feasible and each component of the full-precision salt-additions
  vector is the solver's component at the salt's index 1..5, taken as it is
  whatever its sign (zero only when the component is absent or zero): no
  tolerance test, no clamp and no error apply to a negative component.
\<close>

theorem precise_vector_is_solver_output:
  assumes "run_solver solveQP volumeLiters baseProfile targetProfile = Returns (Some result)"
    and "solution result = Some sol"
  shows "(let r = fst (optimizeWithQP solveQP volumeLiters baseProfile targetProfile) in
           feasible r \<and>
           saltAdditions r Gypsum = js_or0 (js_index sol 1) \<and>
           saltAdditions r CalciumChloride = js_or0 (js_index sol 2) \<and>
           saltAdditions r EpsomSalt = js_or0 (js_index sol 3) \<and>
           saltAdditions r TableSalt = js_or0 (js_index sol 4) \<and>
           saltAdditions r BakingSoda = js_or0 (js_index sol 5))"
  by (simp add: optimizeWithQP_solved [OF assms] feasibleResult_fields mkAdditions_def)

theorem precise_vector_is_solver_output_witness:
  "run_solver solver_negative 20 ex_base ex_target =
     Returns (Some \<lparr>solution = Some [0, - 1, 0, 0, 0, 0], message = []\<rparr>) \<and>
   feasible (fst (optimizeWithQP solver_negative 20 ex_base ex_target)) \<and>
   saltAdditions (fst (optimizeWithQP solver_negative 20 ex_base ex_target)) Gypsum = - 1 \<and>
   saltAdditions (fst (optimizeWithQP solver_negative 20 ex_base ex_target)) BakingSoda = 0"
  using precise_vector_is_solver_output
    [OF run_solver_examples(3), of "[0, - 1, 0, 0, 0, 0]" 20 ex_base ex_target]
  by (simp add: Let_def js_index_def run_solver_examples)

text \<open>
  The claim C1 as stated fails: a solver component of \<open>-1\<close> gram, far beyond
  any numerical tolerance, is returned as the gypsum addition of a feasible
  result, and optimizeSaltAdditions returns that result without an error.
\<close>

theorem negative_component_counterexample:
  "run_solver solver_negative 20 ex_base ex_target =
     Returns (Some \<lparr>solution = Some [0, - 1, 0, 0, 0, 0], message = []\<rparr>) \<and>
   feasible (fst (optimizeWithQP solver_negative 20 ex_base ex_target)) \<and>
   saltAdditions (fst (optimizeWithQP solver_negative 20 ex_base ex_target)) Gypsum = - 1 \<and>
   fst (optimizeSaltAdditions solver_negative 20 ex_base ex_target) =
     Inr (OptimizationResult.extend (fst (optimizeWithQP solver_negative 20 ex_base ex_target))
            (OptimizationResultIter.fields (Some 1)))"
proof -
  have s: "optimizeWithQP solver_negative 20 ex_base ex_target =
             (feasibleResult 20 ex_base ex_target [0, - 1, 0, 0, 0, 0],
              [solver_call 20 ex_base ex_target])"
    by (rule optimizeWithQP_solved [OF run_solver_examples(3)]) simp
  show ?thesis
    by (simp add: run_solver_examples s optimizeSaltAdditions_def feasibleResult_fields
        mkAdditions_def js_index_def)
qed

section \<open>Rejected inputs\<close>

lemma failureResult_fields:
  "success (failureResult text b) = False"
  "error (failureResult text b) = Some text"
  "additions (failureResult text b) s = 0"
  "calculated_profile (failureResult text b) = b"
  "deviations (failureResult text b) i = 0"
  "total_salt_weight (failureResult text b) = 0"
  by (simp_all add: failureResult_def createEmptyAdditions_def createZeroDeviations_def
      mkAdditions_def mkProfile_def split: salt.split ion.split)

lemma calculateWaterAdditions_invalid:
  assumes "\<not> valid (validateInputs (volume_liters input) (base_profile input)
                       (target_profile input))"
  shows "calculateWaterAdditions solveQP input =
           (failureResult (''Input validation failed: '' @
              join '', '' (errors (validateInputs (volume_liters input) (base_profile input)
                                     (target_profile input))))
              (base_profile input), [])"
  using assms by (simp add: calculateWaterAdditions_def Let_def)

lemma validateInputs_bad_volume:
  assumes "\<not> isFinite vol \<or> (\<exists>v. vol = Finite v \<and> v \<le> 0)"
  shows "\<not> valid (validateInputs vol b t)"
    and "\<exists>rest. errors (validateInputs vol b t) =
           (if isFinite vol then ''volume must be positive''
            else ''volume must be a valid number'') # rest"
  using assms by (cases vol; auto simp: validateInputs_def Let_def)+

lemma join_Cons: "\<exists>rest. join sep (x # xs) = x @ rest"
  by (cases xs) auto

text \<open>
  C4. An input whose volume is not finite, or is finite and at most 0, is
  rejected by validation: calculateWaterAdditions returns a failure result
  (\<open>success = false\<close>) whose error text starts with
  \<open>Input validation failed:\<close> followed by the message about the volume, and
  the run makes no solver call (its list of effects is empty).
\<close>

theorem bad_volume_rejected:
  assumes "\<not> isFinite (volume_liters input) \<or> (\<exists>v. volume_liters input = Finite v \<and> v \<le> 0)"
  shows "(let out = calculateWaterAdditions solveQP input in
           success (fst out) = False \<and>
           (\<exists>rest. error (fst out) =
              Some (''Input validation failed: '' @
                    (if isFinite (volume_liters input) then ''volume must be positive''
                     else ''volume must be a valid number'') @ rest)) \<and>
           snd out = [])"
proof -
  let ?val = "validateInputs (volume_liters input) (base_profile input) (target_profile input)"
  have inv: "\<not> valid ?val"
    using assms by (rule validateInputs_bad_volume(1))
  obtain rest where rest: "errors ?val =
      (if isFinite (volume_liters input) then ''volume must be positive''
       else ''volume must be a valid number'') # rest"
    using validateInputs_bad_volume(2) [OF assms] by blast
  obtain rest' where "join '', '' (errors ?val) =
      (if isFinite (volume_liters input) then ''volume must be positive''
       else ''volume must be a valid number'') @ rest'"
    unfolding rest using join_Cons by blast
  then show ?thesis
    by (simp add: calculateWaterAdditions_invalid [OF inv] failureResult_fields)
qed

theorem bad_volume_rejected_witness:
  "(\<exists>v. Finite 0 = Finite v \<and> v \<le> 0) \<and>
   success (fst (calculateWaterAdditions solver_plain (ex_input (Finite 0)))) = False \<and>
   error (fst (calculateWaterAdditions solver_plain (ex_input (Finite 0)))) =
     Some ''Input validation failed: volume must be positive'' \<and>
   snd (calculateWaterAdditions solver_plain (ex_input (Finite 0))) = [] \<and>
   \<not> isFinite NaN \<and>
   success (fst (calculateWaterAdditions solver_plain (ex_input NaN))) = False \<and>
   error (fst (calculateWaterAdditions solver_plain (ex_input NaN))) =
     Some ''Input validation failed: volume must be a valid number'' \<and>
   snd (calculateWaterAdditions solver_plain (ex_input NaN)) = []"
proof -
  have e0: "errors (validateInputs (Finite 0) ex_base ex_target) = [''volume must be positive'']"
    and e1: "errors (validateInputs NaN ex_base ex_target) = [''volume must be a valid number'']"
    by (simp_all add: validateInputs_def Let_def ex_profiles_valid)
  have n0: "\<not> valid (validateInputs (Finite 0) ex_base ex_target)"
    and n1: "\<not> valid (validateInputs NaN ex_base ex_target)"
    by (simp_all add: validateInputs_def Let_def)
  show ?thesis
    using bad_volume_rejected [of "ex_input (Finite 0)" solver_plain]
      bad_volume_rejected [of "ex_input NaN" solver_plain]
    by (simp add: ex_input_def Let_def calculateWaterAdditions_def n0 n1 e0 e1
        failureResult_fields)
qed

text \<open>
  C9. For every input that fails validation, calculateWaterAdditions returns
  \<open>success = false\<close>, all salt additions zero, the calculated profile equal to
  the base profile, every deviation exactly zero and total salt weight zero.
  The infeasible fallback of optimizeWithQP on the same profiles reports
  target minus base instead.
\<close>

theorem validation_failure_result:
  assumes "\<not> valid (validateInputs (volume_liters input) (base_profile input)
                       (target_profile input))"
  shows "(let r = fst (calculateWaterAdditions solveQP input) in
           success r = False \<and>
           (\<forall>s. additions r s = 0) \<and>
           calculated_profile r = base_profile input \<and>
           (\<forall>i. deviations r i = 0) \<and>
           total_salt_weight r = 0) \<and>
         (\<forall>v i. qp_failed (run_solver solveQP v (base_profile input) (target_profile input)) \<longrightarrow>
            OptimizationResult.deviations
              (fst (optimizeWithQP solveQP v (base_profile input) (target_profile input))) i =
            target_profile input i - base_profile input i)"
  by (simp add: calculateWaterAdditions_invalid [OF assms] failureResult_fields
      optimizeWithQP_failed infeasibleResult_fields)

lemma ex_negative_volume_invalid: "\<not> valid (validateInputs (Finite (- 5)) ex_base ex_target)"
  by (simp add: validateInputs_def Let_def)

theorem validation_failure_result_witness:
  "\<not> valid (validateInputs (Finite (- 5)) ex_base ex_target) \<and>
   success (fst (calculateWaterAdditions solver_none (ex_input (Finite (- 5))))) = False \<and>
   additions (fst (calculateWaterAdditions solver_none (ex_input (Finite (- 5))))) Gypsum = 0 \<and>
   calculated_profile (fst (calculateWaterAdditions solver_none (ex_input (Finite (- 5))))) =
     ex_base \<and>
   deviations (fst (calculateWaterAdditions solver_none (ex_input (Finite (- 5))))) Ca = 0 \<and>
   total_salt_weight (fst (calculateWaterAdditions solver_none (ex_input (Finite (- 5))))) = 0 \<and>
   qp_failed (run_solver solver_none 20 ex_base ex_target) \<and>
   OptimizationResult.deviations (fst (optimizeWithQP solver_none 20 ex_base ex_target)) Ca = 26"
  using validation_failure_result [of "ex_input (Finite (- 5))" solver_none]
    ex_negative_volume_invalid
  by (simp add: ex_input_def Let_def ex_base_def ex_target_def mkProfile_def
      run_solver_examples)

section \<open>The sulfate to chloride ratio\<close>

lemma balance_not_na: "getSulfateChlorideBalance (Some r) \<noteq> ''N/A (No Chloride)''"
  by simp

lemma calculateBrewingAnalysis_ratio:
  "sulfate_chloride_ratio (calculateBrewingAnalysis p) =
     (if js_gt (p Cl) (Finite 0) then Some (js_round_to 100 (js_div (p SO4) (p Cl))) else None)"
  "sulfate_chloride_balance (calculateBrewingAnalysis p) =
     getSulfateChlorideBalance
       (if js_gt (p Cl) (Finite 0) then Some (js_div (p SO4) (p Cl)) else None)"
  by (simp_all add: calculateBrewingAnalysis_def Let_def)

lemma guard_fails_iff: "(\<not> js_gt x (Finite 0)) = (js_le x (Finite 0) \<or> x = NaN)"
  by (cases x) (auto simp: js_gt_def)

text \<open>
  C10, as the code has it. For every water profile, calculateBrewingAnalysis
  returns a null sulfate/chloride ratio exactly when the guard \<open>Cl > 0\<close> fails,
  that is when the chloride value is at most 0 or is NaN (the division by Cl
  happens only under the guard), and the balance label is
  \<open>N/A (No Chloride)\<close> exactly in that case. For a chloride value that is not
  NaN this is: exactly when Cl is at most 0.
\<close>

theorem null_ratio_iff_guard_fails:
  "(sulfate_chloride_ratio (calculateBrewingAnalysis profile) = None)
     = (js_le (profile Cl) (Finite 0) \<or> profile Cl = NaN) \<and>
   (sulfate_chloride_balance (calculateBrewingAnalysis profile) = ''N/A (No Chloride)'')
     = (js_le (profile Cl) (Finite 0) \<or> profile Cl = NaN) \<and>
   (profile Cl \<noteq> NaN \<longrightarrow>
      (sulfate_chloride_ratio (calculateBrewingAnalysis profile) = None)
        = js_le (profile Cl) (Finite 0) \<and>
      (sulfate_chloride_balance (calculateBrewingAnalysis profile) = ''N/A (No Chloride)'')
        = js_le (profile Cl) (Finite 0))"
proof (cases "js_gt (profile Cl) (Finite 0)")
  case True
  then have "\<not> (js_le (profile Cl) (Finite 0) \<or> profile Cl = NaN)"
    using guard_fails_iff [of "profile Cl"] by simp
  then show ?thesis
    using True balance_not_na [of "js_div (profile SO4) (profile Cl)"]
    by (simp add: calculateBrewingAnalysis_ratio)
next
  case False
  then have "js_le (profile Cl) (Finite 0) \<or> profile Cl = NaN"
    using guard_fails_iff [of "profile Cl"] by simp
  then show ?thesis
    using False by (auto simp: calculateBrewingAnalysis_ratio)
qed

theorem null_ratio_iff_guard_fails_witness:
  "js_profile ex_base Cl \<noteq> NaN \<and>
   \<not> js_le (js_profile ex_base Cl) (Finite 0) \<and>
   sulfate_chloride_ratio (calculateBrewingAnalysis (js_profile ex_base)) \<noteq> None \<and>
   sulfate_chloride_balance (calculateBrewingAnalysis (js_profile ex_base))
     \<noteq> ''N/A (No Chloride)'' \<and>
   js_profile createZeroDeviations Cl \<noteq> NaN \<and>
   js_le (js_profile createZeroDeviations Cl) (Finite 0) \<and>
   sulfate_chloride_ratio (calculateBrewingAnalysis (js_profile createZeroDeviations)) = None \<and>
   sulfate_chloride_balance (calculateBrewingAnalysis (js_profile createZeroDeviations))
     = ''N/A (No Chloride)''"
proof -
  have a: "js_profile ex_base Cl = Finite 14"
    by (simp add: js_profile_def ex_base_def mkProfile_def)
  have b: "js_profile createZeroDeviations Cl = Finite 0"
    by (simp add: js_profile_def createZeroDeviations_def mkProfile_def)
  show ?thesis
    using null_ratio_iff_guard_fails [of "js_profile ex_base"]
      null_ratio_iff_guard_fails [of "js_profile createZeroDeviations"]
    by (simp add: a b)
qed

text \<open>
  The claim C10 as stated fails at a chloride value of NaN: the ratio is null
  and the label is \<open>N/A (No Chloride)\<close>, although NaN is not at most 0.
\<close>

theorem nan_chloride_counterexample:
  "ex_nan_chloride Cl = NaN \<and>
   \<not> js_le (ex_nan_chloride Cl) (Finite 0) \<and>
   sulfate_chloride_ratio (calculateBrewingAnalysis ex_nan_chloride) = None \<and>
   sulfate_chloride_balance (calculateBrewingAnalysis ex_nan_chloride) = ''N/A (No Chloride)''"
  by (simp add: ex_nan_chloride_def calculateBrewingAnalysis_ratio js_gt_def)

section \<open>The display vector\<close>






section \<open>The matrices of the quadratic program\<close>

lemma ION_CONTRIBUTIONS_eval:
  "ION_CONTRIBUTIONS =
     \<lparr>gypsum = [(Ca, 232.8), (SO4, 557.9)],
      calciumChloride = [(Ca, 272.6), (Cl, 482.3)],
      epsomSalt = [(Mg, 98.6), (SO4, 389.6)],
      tableSalt = [(Na, 393.4), (Cl, 606.6)],
      bakingSoda = [(Na, 273.6), (HCO3, 726.4)]\<rparr>"
  by (simp add: ION_CONTRIBUTIONS_def contribution_of_def SALT_BY_NAME_def BREWING_SALTS_def)

lemma per_unit_eval:
  "per_unit s i =
     (case s of
        Gypsum \<Rightarrow> (case i of Ca \<Rightarrow> 232.8 | SO4 \<Rightarrow> 557.9 | _ \<Rightarrow> 0)
      | CalciumChloride \<Rightarrow> (case i of Ca \<Rightarrow> 272.6 | Cl \<Rightarrow> 482.3 | _ \<Rightarrow> 0)
      | EpsomSalt \<Rightarrow> (case i of Mg \<Rightarrow> 98.6 | SO4 \<Rightarrow> 389.6 | _ \<Rightarrow> 0)
      | TableSalt \<Rightarrow> (case i of Na \<Rightarrow> 393.4 | Cl \<Rightarrow> 606.6 | _ \<Rightarrow> 0)
      | BakingSoda \<Rightarrow> (case i of Na \<Rightarrow> 273.6 | HCO3 \<Rightarrow> 726.4 | _ \<Rightarrow> 0))"
  by (cases s; cases i; simp add: per_unit_def SALT_BY_NAME_def BREWING_SALTS_def)

lemma upt_1_6: "[Suc 0..<6] = [1, 2, 3, 4, 5]"
  and upt_1_7: "[Suc 0..<7] = [1, 2, 3, 4, 5, 6]"
  and upt_0_6: "[0..<6] = [0, 1, 2, 3, 4, 5]"
  and upt_0_7: "[0..<7] = [0, 1, 2, 3, 4, 5, 6]"
  by (simp_all add: upt_rec)

lemma sizes: "length qp_salts = 5" "length ions = 6"
  by (simp_all add: qp_salts_def ions_def)

lemma fillA_eval:
  "fillA v 6 5 (zeros 6 5) =
     [[0, 0, 0, 0, 0, 0],
      [0, 232.8 / v, 272.6 / v, 0, 0, 0],
      [0, 0, 0, 98.6 / v, 0, 0],
      [0, 0, 0, 0, 393.4 / v, 273.6 / v],
      [0, 557.9 / v, 0, 389.6 / v, 0, 0],
      [0, 0, 482.3 / v, 0, 606.6 / v, 0],
      [0, 0, 0, 0, 0, 726.4 / v]]"
  by (simp add: fillA_def zeros_def upt_1_6 upt_1_7 upt_0_6 upt_0_7 qp_salts_def ions_def
      ION_CONTRIBUTIONS_eval set2_def)

lemma fillH_eval:
  "fillH M 6 5 (zeros 5 5) =
     map (\<lambda>i. map (\<lambda>j. if i = 0 \<or> j = 0 then 0
                         else 2 * (0 + M ! 1 ! i * M ! 1 ! j + M ! 2 ! i * M ! 2 ! j
                                  + M ! 3 ! i * M ! 3 ! j + M ! 4 ! i * M ! 4 ! j
                                  + M ! 5 ! i * M ! 5 ! j + M ! 6 ! i * M ! 6 ! j))
                 [0, 1, 2, 3, 4, 5]) [0, 1, 2, 3, 4, 5]"
  by (simp add: fillH_def zeros_def upt_1_6 upt_1_7 upt_0_6 set2_def)

lemma sum_1_6:
  fixes f :: "nat \<Rightarrow> real"
  shows "(\<Sum>k = 1..6. f k) = 0 + f 1 + f 2 + f 3 + f 4 + f 5 + f 6"
proof -
  have "{1..6::nat} = {1, 2, 3, 4, 5, 6}" by auto
  then show ?thesis by simp
qed

lemma fillH_entry:
  assumes "i < 6" and "j < 6"
  shows "fillH M 6 5 (zeros 5 5) ! i ! j =
           (if i = 0 \<or> j = 0 then 0 else 2 * (\<Sum>k = 1..6. M ! k ! i * M ! k ! j))"
proof -
  have "fillH M 6 5 (zeros 5 5) ! i ! j =
          (if i = 0 \<or> j = 0 then 0
           else 2 * (0 + M ! 1 ! i * M ! 1 ! j + M ! 2 ! i * M ! 2 ! j
                      + M ! 3 ! i * M ! 3 ! j + M ! 4 ! i * M ! 4 ! j
                      + M ! 5 ! i * M ! 5 ! j + M ! 6 ! i * M ! 6 ! j))"
    unfolding fillH_eval upt_0_6 [symmetric]
    using assms by (simp only: nth_map length_upt nth_upt diff_zero add_0)
  then show ?thesis
    by (simp only: sum_1_6)
qed



lemma quadratic_form_term:
  fixes a :: "nat \<Rightarrow> nat \<Rightarrow> real" and x :: "nat \<Rightarrow> real"
  shows "x i * (2 * (\<Sum>k\<in>T. a k i * a k j)) * x j =
         2 * (\<Sum>k\<in>T. (a k i * x i) * (a k j * x j))"
proof -
  have "x i * (2 * (\<Sum>k\<in>T. a k i * a k j)) * x j = 2 * ((x i * x j) * (\<Sum>k\<in>T. a k i * a k j))"
    by simp
  also have "(x i * x j) * (\<Sum>k\<in>T. a k i * a k j) = (\<Sum>k\<in>T. (x i * x j) * (a k i * a k j))"
    by (rule sum_distrib_left)
  also have "\<dots> = (\<Sum>k\<in>T. (a k i * x i) * (a k j * x j))"
    by (rule sum.cong [OF refl]) simp
  finally show ?thesis .
qed

lemma quadratic_form_sum:
  fixes a :: "nat \<Rightarrow> nat \<Rightarrow> real" and x :: "nat \<Rightarrow> real"
  shows "(\<Sum>i\<in>S. \<Sum>j\<in>S. x i * (2 * (\<Sum>k\<in>T. a k i * a k j)) * x j) =
         2 * (\<Sum>k\<in>T. (\<Sum>i\<in>S. a k i * x i)\<^sup>2)"
proof -
  have "(\<Sum>i\<in>S. \<Sum>j\<in>S. x i * (2 * (\<Sum>k\<in>T. a k i * a k j)) * x j) =
        (\<Sum>i\<in>S. \<Sum>j\<in>S. 2 * (\<Sum>k\<in>T. (a k i * x i) * (a k j * x j)))"
    by (simp only: quadratic_form_term)
  also have "\<dots> = 2 * (\<Sum>i\<in>S. \<Sum>j\<in>S. \<Sum>k\<in>T. (a k i * x i) * (a k j * x j))"
    by (simp only: sum_distrib_left)
  also have "(\<Sum>i\<in>S. \<Sum>j\<in>S. \<Sum>k\<in>T. (a k i * x i) * (a k j * x j)) =
             (\<Sum>i\<in>S. \<Sum>k\<in>T. \<Sum>j\<in>S. (a k i * x i) * (a k j * x j))"
    by (rule sum.cong [OF refl]) (rule sum.swap)
  also have "\<dots> = (\<Sum>k\<in>T. \<Sum>i\<in>S. \<Sum>j\<in>S. (a k i * x i) * (a k j * x j))"
    by (rule sum.swap)
  also have "\<dots> = (\<Sum>k\<in>T. (\<Sum>i\<in>S. a k i * x i)\<^sup>2)"
    by (simp only: power2_eq_square sum_product)
  finally show ?thesis .
qed

lemma quadratic_form_nonneg:
  fixes a :: "nat \<Rightarrow> nat \<Rightarrow> real" and x :: "nat \<Rightarrow> real"
  shows "0 \<le> (\<Sum>i\<in>S. \<Sum>j\<in>S. x i * (2 * (\<Sum>k\<in>T. a k i * a k j)) * x j)"
  unfolding quadratic_form_sum by (simp add: sum_nonneg)

lemma buildQuadprogMatrices_fields:
  "A (buildQuadprogMatrices v b t) = fillA v 6 5 (zeros 6 5)"
  "H (buildQuadprogMatrices v b t) = fillH (fillA v 6 5 (zeros 6 5)) 6 5 (zeros 5 5)"
  by (simp_all add: buildQuadprogMatrices_def Let_def sizes)

lemma range_cases:
  "i \<in> {1..6::nat} \<Longrightarrow> i = 1 \<or> i = 2 \<or> i = 3 \<or> i = 4 \<or> i = 5 \<or> i = 6"
  "j \<in> {1..5::nat} \<Longrightarrow> j = 1 \<or> j = 2 \<or> j = 3 \<or> j = 4 \<or> j = 5"
  by (simp_all, linarith+)

lemma fillA_entry:
  assumes "ionIdx \<in> {1..6}" and "saltIdx \<in> {1..5}"
  shows "fillA v 6 5 (zeros 6 5) ! ionIdx ! saltIdx =
           (case map_of (contributions (BREWING_SALTS ! (saltIdx - 1))) (ions ! (ionIdx - 1)) of
              Some c \<Rightarrow> c / v
            | None \<Rightarrow> 0)"
  using range_cases(1) [OF assms(1)] range_cases(2) [OF assms(2)]
  by (elim disjE; simp add: fillA_eval BREWING_SALTS_def ions_def)

text \<open>
  C5. For every volume greater than 0 and every pair of profiles, the matrix
  \<open>A\<close> built by buildQuadprogMatrices holds, for ion row 1..6 and salt column
  1..5, the salt's catalog contribution to the ion divided by the volume, or 0
  when the salt does not contribute the ion; the matrix \<open>H\<close> holds twice the
  product of the transpose of \<open>A\<close> with \<open>A\<close>; \<open>H\<close> is symmetric, and its
  quadratic form is non-negative for every vector.
\<close>

theorem contribution_and_objective_matrices:
  assumes "0 < volumeLiters"
  shows "(let m = buildQuadprogMatrices volumeLiters baseProfile targetProfile in
           (\<forall>ionIdx\<in>{1..6}. \<forall>saltIdx\<in>{1..5}.
              A m ! ionIdx ! saltIdx =
                (case map_of (contributions (BREWING_SALTS ! (saltIdx - 1)))
                        (ions ! (ionIdx - 1)) of
                   Some c \<Rightarrow> c / volumeLiters
                 | None \<Rightarrow> 0)) \<and>
           (\<forall>i\<in>{1..5}. \<forall>j\<in>{1..5}.
              H m ! i ! j = 2 * (\<Sum>k = 1..6. A m ! k ! i * A m ! k ! j)) \<and>
           (\<forall>i\<in>{1..5}. \<forall>j\<in>{1..5}. H m ! i ! j = H m ! j ! i) \<and>
           (\<forall>x. 0 \<le> (\<Sum>i = 1..5. \<Sum>j = 1..5. x i * H m ! i ! j * x j)))"
proof -
  let ?M = "fillA volumeLiters 6 5 (zeros 6 5)"
  let ?Q = "fillH ?M 6 5 (zeros 5 5)"
  have entry: "?Q ! i ! j = 2 * (\<Sum>k = 1..6. ?M ! k ! i * ?M ! k ! j)"
    if "i \<in> {1..5}" "j \<in> {1..5}" for i j
    using that by (simp add: fillH_entry)
  have sym: "?Q ! i ! j = ?Q ! j ! i" if "i \<in> {1..5}" "j \<in> {1..5}" for i j
    by (simp only: entry [OF that] entry [OF that(2,1)] mult.commute)
  have psd: "0 \<le> (\<Sum>i = 1..5. \<Sum>j = 1..5. x i * ?Q ! i ! j * x j)" for x :: "nat \<Rightarrow> real"
  proof -
    have "(\<Sum>i = 1..5. \<Sum>j = 1..5. x i * ?Q ! i ! j * x j) =
          (\<Sum>i = 1..5. \<Sum>j = 1..5. x i * (2 * (\<Sum>k = 1..6. ?M ! k ! i * ?M ! k ! j)) * x j)"
      by (intro sum.cong refl) (simp only: entry)
    then show ?thesis
      by (simp only: quadratic_form_nonneg)
  qed
  show ?thesis
    unfolding Let_def buildQuadprogMatrices_fields
    using fillA_entry entry sym psd by blast
qed

theorem contribution_and_objective_matrices_witness:
  "(0::real) < 20 \<and>
   A (buildQuadprogMatrices 20 ex_base ex_target) ! 1 ! 1 = 11.64 \<and>
   A (buildQuadprogMatrices 20 ex_base ex_target) ! 2 ! 1 = 0 \<and>
   H (buildQuadprogMatrices 20 ex_base ex_target) ! 1 ! 3 =
     2 * (\<Sum>k = 1..6. A (buildQuadprogMatrices 20 ex_base ex_target) ! k ! 1 *
                       A (buildQuadprogMatrices 20 ex_base ex_target) ! k ! 3) \<and>
   H (buildQuadprogMatrices 20 ex_base ex_target) ! 1 ! 3 =
     H (buildQuadprogMatrices 20 ex_base ex_target) ! 3 ! 1 \<and>
   0 \<le> (\<Sum>i = 1..5. \<Sum>j = 1..5.
          (if i = 1 then 1 else - 2) *
          H (buildQuadprogMatrices 20 ex_base ex_target) ! i ! j *
          (if j = 1 then 1 else - 2))"
proof -
  let ?m = "buildQuadprogMatrices 20 ex_base ex_target"
  have v: "(0::real) < 20" by simp
  note t = contribution_and_objective_matrices [OF v, of ex_base ex_target, unfolded Let_def]
  have m: "(1::nat) \<in> {1..6}" "(2::nat) \<in> {1..6}" "(1::nat) \<in> {1..5}" "(3::nat) \<in> {1..5}"
    by simp_all
  have "A ?m ! 1 ! 1 =
          (case map_of (contributions (BREWING_SALTS ! (1 - 1))) (ions ! (1 - 1)) of
             Some c \<Rightarrow> c / 20 | None \<Rightarrow> 0)"
    using t m(1,3) by (elim conjE) (rule bspec, rule bspec)
  then have a1: "A ?m ! 1 ! 1 = 11.64"
    by (simp add: BREWING_SALTS_def ions_def)
  have "A ?m ! 2 ! 1 =
          (case map_of (contributions (BREWING_SALTS ! (1 - 1))) (ions ! (2 - 1)) of
             Some c \<Rightarrow> c / 20 | None \<Rightarrow> 0)"
    using t m(2,3) by (elim conjE) (rule bspec, rule bspec)
  then have a2: "A ?m ! 2 ! 1 = 0"
    by (simp add: BREWING_SALTS_def ions_def)
  have h: "H ?m ! 1 ! 3 = 2 * (\<Sum>k = 1..6. A ?m ! k ! 1 * A ?m ! k ! 3)"
    using t m(3,4) by (elim conjE) (rule bspec, rule bspec)
  have s: "H ?m ! 1 ! 3 = H ?m ! 3 ! 1"
    using t m(3,4) by (elim conjE) (rule bspec, rule bspec)
  have q: "\<forall>x::nat \<Rightarrow> real. 0 \<le> (\<Sum>i = 1..5. \<Sum>j = 1..5. x i * H ?m ! i ! j * x j)"
    using t by (elim conjE)
  have p: "0 \<le> (\<Sum>i = 1..5. \<Sum>j = 1..5.
          (if i = 1 then 1 else - 2) * H ?m ! i ! j * (if j = 1 then 1 else - 2))"
    using spec [OF q, of "\<lambda>i. if i = 1 then 1 else - 2"] .
  from v a1 a2 h s p show ?thesis
    by (intro conjI)
qed

section \<open>The achieved profile\<close>

lemma add_nothing:
  "fold (\<lambda>(ion, contribution) p. if contribution > 0
          then p(ion := p ion + (contribution * 0) / v) else p) tbl (p0 :: WaterProfile) = p0"
  by (induction tbl arbitrary: p0) (auto simp: fun_upd_idem)

lemma salt_step:
  "(if (a::real) > 0
    then fold (\<lambda>(ion, contribution) p. if contribution > 0
                 then p(ion := p ion + (contribution * a) / v) else p) tbl (p0 :: WaterProfile)
    else p0) =
   fold (\<lambda>(ion, contribution) p. if contribution > 0
           then p(ion := p ion + (contribution * max 0 a) / v) else p) tbl p0"
proof (cases "a > 0")
  case True
  then have "max 0 a = a" by simp
  then show ?thesis using True by (simp only: if_True)
next
  case False
  then have "max 0 a = 0" by simp
  then show ?thesis using False by (simp only: add_nothing if_False)
qed

lemma applyContributions_apply:
  "applyContributions v b p i =
     b i + (\<Sum>s\<leftarrow>salt_keys. max 0 (p s) * per_unit s i / v)"
  unfolding applyContributions_def opt_salts_def ION_CONTRIBUTIONS_eval ions_def Let_def
  by (cases i; simp add: salt_step salt_keys_def per_unit_eval add_divide_distrib)

text \<open>
  C6, as the code has it. For every run with a volume greater than 0 in which
  the solver returns a solution, the calculated profile is, on every ion, the
  base profile plus the sum over the salts of the positive part of the
  full-precision amount times the salt's per-unit contribution divided by the
  volume (a salt whose amount is not positive adds nothing), and the deviation
  is the calculated profile minus the target. When no returned amount is
  negative, this is the base profile plus the sum of amount times contribution
  divided by volume, so that reapplying the returned amounts reproduces the
  reported profile.
\<close>

theorem achieved_profile_formula:
  assumes "0 < volumeLiters"
    and "run_solver solveQP volumeLiters baseProfile targetProfile = Returns (Some result)"
    and "solution result = Some sol"
  shows "(let r = fst (optimizeWithQP solveQP volumeLiters baseProfile targetProfile) in
           (\<forall>i. calculatedProfile r i =
                  baseProfile i +
                  (\<Sum>s\<leftarrow>salt_keys. max 0 (saltAdditions r s) * per_unit s i / volumeLiters)) \<and>
           (\<forall>i. OptimizationResult.deviations r i = calculatedProfile r i - targetProfile i) \<and>
           ((\<forall>s. 0 \<le> saltAdditions r s) \<longrightarrow>
              (\<forall>i. calculatedProfile r i =
                     baseProfile i +
                     (\<Sum>s\<leftarrow>salt_keys. saltAdditions r s * per_unit s i / volumeLiters))))"
proof -
  let ?r = "feasibleResult volumeLiters baseProfile targetProfile sol"
  have a: "calculatedProfile ?r i =
             baseProfile i +
             (\<Sum>s\<leftarrow>salt_keys. max 0 (saltAdditions ?r s) * per_unit s i / volumeLiters)" for i
    by (simp only: feasibleResult_fields(4) applyContributions_apply)
  have b: "calculatedProfile ?r i =
             baseProfile i +
             (\<Sum>s\<leftarrow>salt_keys. saltAdditions ?r s * per_unit s i / volumeLiters)"
    if "\<forall>s. 0 \<le> saltAdditions ?r s" for i
  proof -
    have "max 0 (saltAdditions ?r s) = saltAdditions ?r s" for s
      using that by (simp add: max_def)
    then show ?thesis
      using a [of i] by simp
  qed
  show ?thesis
    unfolding Let_def optimizeWithQP_solved [OF assms(2,3)] fst_conv
    using a b feasibleResult_fields(5) by blast
qed

theorem achieved_profile_formula_witness:
  "(0::real) < 20 \<and>
   run_solver solver_plain 20 ex_base ex_target =
     Returns (Some \<lparr>solution = Some [0, 1.5, 0.52, 0, 0, 0], message = []\<rparr>) \<and>
   calculatedProfile (fst (optimizeWithQP solver_plain 20 ex_base ex_target)) Ca = 46.5476 \<and>
   OptimizationResult.deviations (fst (optimizeWithQP solver_plain 20 ex_base ex_target)) Ca =
     - 1.4524 \<and>
   calculatedProfile (fst (optimizeWithQP solver_plain 20 ex_base ex_target)) SO4 = 47.8425"
proof -
  let ?r = "fst (optimizeWithQP solver_plain 20 ex_base ex_target)"
  have v: "(0::real) < 20" by simp
  note t = achieved_profile_formula
      [OF v run_solver_examples(2), of "[0, 1.5, 0.52, 0, 0, 0]" ex_base ex_target,
       unfolded Let_def]
  have s: "saltAdditions ?r = mkAdditions 1.5 0.52 0 0 0"
    by (simp add: optimizeWithQP_solved [OF run_solver_examples(2)] feasibleResult_fields
        js_index_def)
  have c: "calculatedProfile ?r i =
             ex_base i + (\<Sum>s\<leftarrow>salt_keys. max 0 (mkAdditions 1.5 0.52 0 0 0 s) * per_unit s i / 20)"
    for i
    using t by (simp add: s)
  have d: "OptimizationResult.deviations ?r i = calculatedProfile ?r i - ex_target i" for i
    using t by simp
  have c1: "calculatedProfile ?r Ca = 46.5476"
    unfolding c by (simp add: salt_keys_def mkAdditions_def per_unit_eval ex_base_def mkProfile_def)
  have c2: "calculatedProfile ?r SO4 = 47.8425"
    unfolding c by (simp add: salt_keys_def mkAdditions_def per_unit_eval ex_base_def mkProfile_def)
  have d1: "OptimizationResult.deviations ?r Ca = - 1.4524"
    unfolding d c1 by (simp add: ex_target_def mkProfile_def)
  from v run_solver_examples(2) c1 d1 c2 show ?thesis
    by (intro conjI)
qed

text \<open>
  The claim C6 as stated fails when the solver returns a negative component:
  with \<open>-1\<close> gram of gypsum the result is feasible and reports the base
  calcium of 22 ppm, while reapplying the returned amounts gives 10.36 ppm.
\<close>

theorem negative_amount_round_trip_counterexample:
  "run_solver solver_negative 20 ex_base ex_target =
     Returns (Some \<lparr>solution = Some [0, - 1, 0, 0, 0, 0], message = []\<rparr>) \<and>
   feasible (fst (optimizeWithQP solver_negative 20 ex_base ex_target)) \<and>
   calculatedProfile (fst (optimizeWithQP solver_negative 20 ex_base ex_target)) Ca = 22 \<and>
   ex_base Ca +
     (\<Sum>s\<leftarrow>salt_keys. saltAdditions (fst (optimizeWithQP solver_negative 20 ex_base ex_target)) s *
                       per_unit s Ca / 20) = 10.36"
proof -
  let ?r = "fst (optimizeWithQP solver_negative 20 ex_base ex_target)"
  have r: "?r = feasibleResult 20 ex_base ex_target [0, - 1, 0, 0, 0, 0]"
    by (simp add: optimizeWithQP_solved [OF run_solver_examples(3)])
  have f: "feasible ?r"
    unfolding r by (simp add: feasibleResult_fields(1))
  have s: "saltAdditions ?r = mkAdditions (- 1) 0 0 0 0"
    unfolding r by (simp add: feasibleResult_fields js_index_def)
  have "calculatedProfile ?r Ca =
          ex_base Ca + (\<Sum>s\<leftarrow>salt_keys. max 0 (mkAdditions (- 1) 0 0 0 0 s) * per_unit s Ca / 20)"
    using s unfolding r by (simp only: feasibleResult_fields(4) applyContributions_apply)
  also have "\<dots> = 22"
    by (simp add: salt_keys_def mkAdditions_def per_unit_eval ex_base_def mkProfile_def)
  finally have c: "calculatedProfile ?r Ca = 22" .
  have g: "ex_base Ca + (\<Sum>s\<leftarrow>salt_keys. saltAdditions ?r s * per_unit s Ca / 20) = 10.36"
    unfolding s by (simp add: salt_keys_def mkAdditions_def per_unit_eval ex_base_def mkProfile_def)
  from run_solver_examples(3) f c g show ?thesis
    by (intro conjI)
qed

end
